theory Spec2Isabelle
  imports Complex_Main
begin

section \<open>JavaScript values used by the client\<close>

text \<open>
  The client is TypeScript. The values the verified functions handle are modelled as follows.
  \<^item> A \<open>string\<close> is a \<^typ>\<open>string\<close>; a string is truthy exactly when it is non-empty.
  \<^item> A \<open>number\<close> is a value of the type \<open>number\<close> below: a finite value, given by the
    real number it denotes (the two zeros are one value: the code does not tell them
    apart), \<open>NaN\<close>, or one of the two infinities. A number is truthy unless it is zero
    or \<open>NaN\<close>.
  \<^item> An HTTP status, which the code only compares with integer literals, is an
    \<^typ>\<open>int\<close>.
  \<^item> An optional field or argument (\<open>x?: T\<close>, \<open>T | null\<close>, \<open>T | undefined\<close>) is a
    \<^typ>\<open>'a option\<close>; \<open>a?.f\<close> is \<open>Option.bind\<close>.
  \<^item> A value of type \<open>unknown\<close> inside a record that the code only carries around is a
    \<open>json\<close> value.
  \<^item> A rejected promise or a thrown exception is the \<open>Inl\<close> side of a sum, a fulfilled
    promise the \<open>Inr\<close> side.
\<close>

datatype number = Finite real | NaN | Infinity | NegInfinity

datatype json =
    JNull
  | JBool bool
  | JNum number
  | JStr string
  | JArr "json list"
  | JObj "(string \<times> json) list"

definition truthy_string :: "string \<Rightarrow> bool" where
  "truthy_string s = (s \<noteq> [])"

definition truthy_number :: "number \<Rightarrow> bool" where
  "truthy_number x =
     (case x of Finite r \<Rightarrow> r \<noteq> 0 | NaN \<Rightarrow> False | Infinity \<Rightarrow> True | NegInfinity \<Rightarrow> True)"

text \<open>The decimal digits of an integer, with a minus sign when it is negative.\<close>

definition digit_char :: "nat \<Rightarrow> char" where
  "digit_char d = char_of (48 + d)"

fun nat_digits :: "nat \<Rightarrow> string" where
  "nat_digits n =
     (if n < 10 then [digit_char n] else nat_digits (n div 10) @ [digit_char (n mod 10)])"

declare nat_digits.simps [simp del]

definition int_decimal :: "int \<Rightarrow> string" where
  "int_decimal i =
     (if i < 0 then CHR ''-'' # nat_digits (nat (- i)) else nat_digits (nat i))"

text \<open>
  \<open>Number.prototype.toString\<close> with no radix. \<open>NaN\<close> and the infinities are rendered by
  name. A safe integer (an integral value of magnitude below \<open>2^53\<close>,
  \<open>Number.isSafeInteger\<close>) is rendered by its decimal digits: every integer of that
  magnitude is a number value of its own, so the shortest digits that read back as the
  value are its own. Every other finite value (a fraction, or an integral value from
  \<open>2^53\<close> on, in exponent notation from \<open>1e21\<close> on) is rendered by the platform from the
  shortest digits that read back as the same double; that rendering is the parameter
  \<open>render\<close>.
\<close>

definition is_safe_integer :: "real \<Rightarrow> bool" where
  "is_safe_integer r = (of_int \<lfloor>r\<rfloor> = r \<and> \<bar>r\<bar> < 2 ^ 53)"

definition number_toString :: "(number \<Rightarrow> string) \<Rightarrow> number \<Rightarrow> string" where
  "number_toString render x =
     (case x of
        Finite r \<Rightarrow> if is_safe_integer r then int_decimal \<lfloor>r\<rfloor> else render x
      | NaN \<Rightarrow> ''NaN''
      | Infinity \<Rightarrow> ''Infinity''
      | NegInfinity \<Rightarrow> ''-Infinity'')"




section \<open>The authentication context (context/AuthContext.tsx)\<close>

record Preferences =
  searchHistoryLimit :: number
  popularSearchesLimit :: number
  theme :: string

record User =
  user_id :: number
  username :: string
  email :: string
  firstName :: "string option"
  lastName :: "string option"
  preferences :: Preferences

record AuthState =
  user :: "User option"
  isAuthenticated :: bool
  isLoading :: bool
  error :: "string option"

text \<open>
  The four declared actions, and \<open>OTHER\<close> for an action object whose \<open>type\<close> is none
  of them (the \<open>default\<close> branch of the reducer's \<open>switch\<close>).
\<close>

datatype AuthAction =
    SET_LOADING bool
  | SET_USER "User option"
  | SET_ERROR "string option"
  | LOGOUT
  | OTHER string

definition initialState :: AuthState where
  "initialState = \<lparr> user = None, isAuthenticated = False, isLoading = True, error = None \<rparr>"

fun authReducer :: "AuthState \<Rightarrow> AuthAction \<Rightarrow> AuthState" where
  "authReducer state (SET_LOADING payload) = state\<lparr> isLoading := payload \<rparr>"
| "authReducer state (SET_USER payload) =
     state\<lparr> user := payload, isAuthenticated := (payload \<noteq> None), isLoading := False,
            error := None \<rparr>"
| "authReducer state (SET_ERROR payload) = state\<lparr> error := payload, isLoading := False \<rparr>"
| "authReducer state LOGOUT =
     state\<lparr> user := None, isAuthenticated := False, isLoading := False, error := None \<rparr>"
| "authReducer state (OTHER t) = state"

text \<open>The state after a sequence of dispatched actions, starting from a given state.\<close>

definition dispatch_all :: "AuthState \<Rightarrow> AuthAction list \<Rightarrow> AuthState" where
  "dispatch_all state actions = foldl authReducer state actions"

definition auth_consistent :: "AuthState \<Rightarrow> bool" where
  "auth_consistent state = (isAuthenticated state = (user state \<noteq> None))"


section \<open>The HTTP client wrapper (services/api.ts)\<close>

subsection \<open>Data-transfer shapes\<close>

text \<open>
  \<open>BackendProduct\<close> and the frontend \<open>Product\<close> share field names in the source; the
  record fields carry a prefix (\<open>bp_\<close>, \<open>p_\<close>) to keep them apart.
\<close>

record BackendProduct =
  bp_id :: number
  bp_name :: string
  bp_description :: string
  bp_price :: number
  bp_category :: string
  bp_imageUrl :: string
  bp_attributes :: "(string \<times> json) list"
  bp_createdAt :: string
  bp_updatedAt :: string
  bp_ai_explanation :: "string option"
  bp_ai_relevance_score :: "number option"

record Product =
  p_id :: string
  p_name :: string
  p_price :: number
  p_description :: string
  p_image :: string
  p_currency :: "string option"
  p_aiExplanation :: "string option"

text \<open>\<open>render\<close> is the platform's part of \<open>Number.prototype.toString\<close>.\<close>

definition transformProduct :: "(number \<Rightarrow> string) \<Rightarrow> BackendProduct \<Rightarrow> Product" where
  "transformProduct render backendProduct =
     \<lparr> p_id = number_toString render (bp_id backendProduct),
       p_name = bp_name backendProduct,
       p_price = bp_price backendProduct,
       p_description = bp_description backendProduct,
       p_image = bp_imageUrl backendProduct,
       p_currency = Some ''USD'',
       p_aiExplanation = bp_ai_explanation backendProduct \<rparr>"

record 'a BackendResponse =
  br_success :: bool
  br_count :: "number option"
  br_data :: 'a
  br_message :: "string option"

record Pagination =
  pg_page :: number
  pg_limit :: number
  pg_total :: number
  pg_totalPages :: number
  pg_hasNextPage :: bool
  pg_hasPrevPage :: bool

record SearchResponse =
  sr_success :: bool
  sr_query :: string
  sr_results :: "BackendProduct list"
  sr_filters :: "(string \<times> json) list"
  sr_sortBy :: string
  sr_pagination :: Pagination
  sr_total_results :: number
  sr_execution_time_ms :: number

record SearchFilters =
  f_category :: "string option"
  f_brand :: "string option"
  f_minPrice :: "number option"
  f_maxPrice :: "number option"
  f_attributes :: "(string \<times> string) list option"

datatype SortBy = relevance | price_asc | price_desc | name_asc | name_desc | newest | oldest

fun sortBy_string :: "SortBy \<Rightarrow> string" where
  "sortBy_string relevance = ''relevance''"
| "sortBy_string price_asc = ''price_asc''"
| "sortBy_string price_desc = ''price_desc''"
| "sortBy_string name_asc = ''name_asc''"
| "sortBy_string name_desc = ''name_desc''"
| "sortBy_string newest = ''newest''"
| "sortBy_string oldest = ''oldest''"

record SearchOptions =
  so_query :: string
  so_filters :: "SearchFilters option"
  so_sortBy :: "SortBy option"
  so_page :: "number option"
  so_limit :: "number option"

subsection \<open>Failures\<close>

text \<open>
  What a rejected request carries. An Axios error has an optional \<open>code\<close> and an optional
  \<open>response\<close> with a \<open>status\<close> and an optional body \<open>data\<close>, whose \<open>message\<close> is
  optional (\<open>message?: string\<close> of the backend's response format). \<open>NotAxios\<close> is every
  other value (\<open>axios.isAxiosError\<close> is false on it): an ordinary \<open>Error\<close>, \<open>null\<close>,
  \<open>undefined\<close>; the json value describes it and is never inspected.
\<close>

record ErrorBody =
  eb_message :: "string option"

record ErrorResponse =
  er_status :: int
  er_data :: "ErrorBody option"

record AxiosError =
  ae_code :: "string option"
  ae_response :: "ErrorResponse option"

datatype thrown = IsAxiosError AxiosError | NotAxios json

text \<open>\<open>error.response?.status\<close> and \<open>error.response?.data?.message\<close>.\<close>

definition response_status :: "AxiosError \<Rightarrow> int option" where
  "response_status e = map_option er_status (ae_response e)"

definition response_message :: "AxiosError \<Rightarrow> string option" where
  "response_message e =
     Option.bind (ae_response e) (\<lambda>r. Option.bind (er_data r) eb_message)"

fun getErrorMessage :: "thrown \<Rightarrow> string" where
  "getErrorMessage (IsAxiosError e) =
     (if response_status e = Some 404 then ''The requested resource was not found.''
      else if response_status e = Some 500 then
        ''Server error occurred. Please try again later.''
      else if ae_code e = Some ''ECONNABORTED'' then
        ''Request timed out. Please check your connection.''
      else if ae_code e = Some ''ERR_NETWORK'' then
        ''Network error. Please check your internet connection.''
      else (case response_message e of
              Some m \<Rightarrow>
                if truthy_string m then m
                else ''An unexpected error occurred. Please try again.''
            | None \<Rightarrow> ''An unexpected error occurred. Please try again.''))"
| "getErrorMessage (NotAxios v) = ''An unexpected error occurred. Please try again.''"

subsection \<open>Requests\<close>

text \<open>
  The axios instance is a parameter of every API function: \<open>get\<close> maps the URL of a GET
  request to its outcome, \<open>post\<close> the URL and the body of a POST request. The interceptors
  only log and pass the outcome on.

  \<open>URLSearchParams\<close> is an ordered list of name/value pairs; \<open>append\<close> adds at the end.
  Its \<open>toString\<close> joins \<open>name=value\<close> with \<open>&\<close>, each name and value passed through
  the platform's form encoder \<open>enc\<close>, which the model takes as a parameter, as it does
  \<open>encodeURIComponent\<close>.
\<close>

type_synonym URLSearchParams = "(string \<times> string) list"

fun join_amp :: "string list \<Rightarrow> string" where
  "join_amp [] = []"
| "join_amp [x] = x"
| "join_amp (x # y # ys) = x @ ''&'' @ join_amp (y # ys)"

definition params_toString :: "(string \<Rightarrow> string) \<Rightarrow> URLSearchParams \<Rightarrow> string" where
  "params_toString enc params = join_amp (map (\<lambda>(k, v). enc k @ ''='' @ enc v) params)"

text \<open>\<open>if (s) params.append(key, s)\<close> for an optional string, and
  \<open>if (n) params.append(key, n.toString())\<close> for an optional number.\<close>

definition append_string :: "string \<Rightarrow> string option \<Rightarrow> URLSearchParams \<Rightarrow> URLSearchParams" where
  "append_string key v params =
     (case v of
        Some s \<Rightarrow> if truthy_string s then params @ [(key, s)] else params
      | None \<Rightarrow> params)"

definition append_number ::
  "(number \<Rightarrow> string) \<Rightarrow> string \<Rightarrow> number option \<Rightarrow> URLSearchParams \<Rightarrow> URLSearchParams" where
  "append_number render key v params =
     (case v of
        Some n \<Rightarrow>
          if truthy_number n then params @ [(key, number_toString render n)] else params
      | None \<Rightarrow> params)"

definition append_sortBy :: "SortBy option \<Rightarrow> URLSearchParams \<Rightarrow> URLSearchParams" where
  "append_sortBy sortBy params =
     (case sortBy of
        Some s \<Rightarrow> if s \<noteq> relevance then params @ [(''sortBy'', sortBy_string s)] else params
      | None \<Rightarrow> params)"

definition getAllProducts_params ::
  "(number \<Rightarrow> string) \<Rightarrow> SearchFilters option \<Rightarrow> SortBy option \<Rightarrow> URLSearchParams" where
  "getAllProducts_params render filters sortBy =
     append_sortBy sortBy
       (append_number render ''maxPrice'' (Option.bind filters f_maxPrice)
         (append_number render ''minPrice'' (Option.bind filters f_minPrice)
           (append_string ''brand'' (Option.bind filters f_brand)
             (append_string ''category'' (Option.bind filters f_category) []))))"

definition getAllProducts_url ::
  "(number \<Rightarrow> string) \<Rightarrow> (string \<Rightarrow> string) \<Rightarrow> SearchFilters option \<Rightarrow> SortBy option
     \<Rightarrow> string" where
  "getAllProducts_url render enc filters sortBy =
     (let q = params_toString enc (getAllProducts_params render filters sortBy)
      in if truthy_string q then ''/products?'' @ q else ''/products'')"

text \<open>\<open>await\<close> on a rejected request rethrows; on a fulfilled one the rest runs.\<close>

definition await :: "thrown + 'a \<Rightarrow> ('a \<Rightarrow> 'b) \<Rightarrow> thrown + 'b" where
  "await outcome k = (case outcome of Inl e \<Rightarrow> Inl e | Inr r \<Rightarrow> Inr (k r))"

definition getAllProducts ::
  "(number \<Rightarrow> string) \<Rightarrow> (string \<Rightarrow> string)
     \<Rightarrow> (string \<Rightarrow> thrown + BackendProduct list BackendResponse)
     \<Rightarrow> SearchFilters option \<Rightarrow> SortBy option \<Rightarrow> thrown + Product list" where
  "getAllProducts render enc get filters sortBy =
     await (get (getAllProducts_url render enc filters sortBy))
       (\<lambda>response. map (transformProduct render) (br_data response))"


definition aiSearch ::
  "(number \<Rightarrow> string) \<Rightarrow> (string \<Rightarrow> SearchOptions \<Rightarrow> thrown + SearchResponse)
     \<Rightarrow> SearchOptions \<Rightarrow> thrown + Product list" where
  "aiSearch render post options =
     await (post ''/search'' options)
       (\<lambda>response. map (transformProduct render) (sr_results response))"




text \<open>
  \<open>healthCheck\<close> wraps the request in \<open>try\<close>/\<open>catch\<close>: its own outcome is a sum as well, so
  that a rejection would show as \<open>Inl\<close>.
\<close>

definition healthCheck :: "(string \<Rightarrow> thrown + 'r) \<Rightarrow> thrown + bool" where
  "healthCheck get = (case get ''/health'' of Inr r \<Rightarrow> Inr True | Inl e \<Rightarrow> Inr False)"


section \<open>The search bar (components/SearchBar.tsx)\<close>

text \<open>
  \<open>String.prototype.trim\<close> removes white space and line terminators from both ends. Of
  the code points ECMAScript lists, those a \<^typ>\<open>char\<close> can hold are TAB, LF, VT, FF, CR,
  SPACE and NBSP.
\<close>

definition is_whitespace :: "char \<Rightarrow> bool" where
  "is_whitespace c = (of_char c \<in> {9, 10, 11, 12, 13, 32, 160 :: nat})"

definition trim :: "string \<Rightarrow> string" where
  "trim s = rev (dropWhile is_whitespace (rev (dropWhile is_whitespace s)))"

text \<open>
  The component's state is the text of the input, \<open>query\<close>. \<open>handleSubmit\<close> runs the
  \<open>onSearch\<close> callback of the props, here a transformer of the parent's state;
  \<open>e.preventDefault()\<close> has no effect on either state.
\<close>

definition handleSubmit :: "(string \<Rightarrow> 's \<Rightarrow> 's) \<Rightarrow> string \<Rightarrow> 's \<Rightarrow> 's" where
  "handleSubmit onSearch query parent =
     (if truthy_string (trim query) then onSearch (trim query) parent else parent)"

text \<open>The \<open>disabled\<close> prop of the submit button, \<open>!query.trim()\<close>.\<close>

definition submit_disabled :: "string \<Rightarrow> bool" where
  "submit_disabled query = (\<not> truthy_string (trim query))"

text \<open>A callback that records its calls, to count them.\<close>

definition record_call :: "string \<Rightarrow> string list \<Rightarrow> string list" where
  "record_call q calls = calls @ [q]"


section \<open>The loading spinner (components/LoadingSpinner.tsx)\<close>

text \<open>\<open>displayMessage\<close>: \<open>None\<close> is \<open>null\<close>, no message.\<close>

definition displayMessage :: "string option \<Rightarrow> string option" where
  "displayMessage message =
     (case message of
        None \<Rightarrow> Some ''Loading...''
      | Some m \<Rightarrow> if m = [] then None else Some m)"

text \<open>What \<open>{displayMessage && <Typography>{displayMessage}</Typography>}\<close> renders.\<close>

definition rendered_message :: "string option \<Rightarrow> string option" where
  "rendered_message message =
     (case displayMessage message of
        Some d \<Rightarrow> if truthy_string d then Some d else None
      | None \<Rightarrow> None)"


section \<open>The application component (App.tsx)\<close>

text \<open>The \<open>useState\<close> cells of \<open>App\<close>, with the prefix \<open>app_\<close>.\<close>

record AppState =
  app_products :: "Product list"
  app_isLoading :: bool
  app_isFilteringOrSorting :: bool
  app_error :: "string option"
  app_searchQuery :: string
  app_currentTab :: number
  app_selectedProduct :: "Product option"
  app_isDetailViewOpen :: bool
  app_filters :: SearchFilters
  app_sortBy :: "SortBy option"

definition app_initial :: AppState where
  "app_initial =
     \<lparr> app_products = [], app_isLoading = True, app_isFilteringOrSorting = False,
       app_error = None, app_searchQuery = [], app_currentTab = Finite 0,
       app_selectedProduct = None, app_isDetailViewOpen = False,
       app_filters = \<lparr> f_category = None, f_brand = None, f_minPrice = None,
                       f_maxPrice = None, f_attributes = None \<rparr>,
       app_sortBy = Some relevance \<rparr>"

text \<open>
  \<open>handleSearch\<close> is an \<open>async\<close> function with one \<open>await\<close>. What precedes the \<open>await\<close>
  runs when the function is called (\<open>handleSearch_start\<close>: the state after it, and the
  options of the request it issues); what follows runs when the request settles
  (\<open>handleSearch_settle\<close>: the \<open>try\<close> body's rest or the \<open>catch\<close>, then the \<open>finally\<close>).
  Every setter is called with a value, never with an updater function.
\<close>

definition handleSearch_start ::
  "string \<Rightarrow> SearchFilters option \<Rightarrow> SortBy option \<Rightarrow> bool \<Rightarrow> AppState
     \<Rightarrow> AppState \<times> SearchOptions" where
  "handleSearch_start query newFilters newSortBy isFilterOperation st =
     (let st1 = (if isFilterOperation then st\<lparr> app_isFilteringOrSorting := True \<rparr>
                 else st\<lparr> app_isLoading := True \<rparr>);
          st2 = st1\<lparr> app_error := None \<rparr>;
          st3 = st2\<lparr> app_searchQuery := query \<rparr>;
          searchFilters = (case newFilters of Some f \<Rightarrow> f | None \<Rightarrow> app_filters st);
          searchSort = (case newSortBy of Some s \<Rightarrow> Some s | None \<Rightarrow> app_sortBy st);
          searchOptions = \<lparr> so_query = query, so_filters = Some searchFilters,
                            so_sortBy = searchSort, so_page = Some (Finite 1),
                            so_limit = Some (Finite 50) \<rparr>
      in (st3, searchOptions))"

definition handleSearch_settle ::
  "SearchFilters option \<Rightarrow> SortBy option \<Rightarrow> bool \<Rightarrow> thrown + Product list \<Rightarrow> AppState
     \<Rightarrow> AppState" where
  "handleSearch_settle newFilters newSortBy isFilterOperation outcome st =
     (let st1 =
        (case outcome of
           Inr recommendedProducts \<Rightarrow>
             (let s1 = st\<lparr> app_products := recommendedProducts \<rparr>;
                  s2 = (case newFilters of Some f \<Rightarrow> s1\<lparr> app_filters := f \<rparr> | None \<Rightarrow> s1)
              in (case newSortBy of Some s \<Rightarrow> s2\<lparr> app_sortBy := Some s \<rparr> | None \<Rightarrow> s2))
         | Inl err \<Rightarrow> st\<lparr> app_error := Some (getErrorMessage err) \<rparr>)
      in if isFilterOperation then st1\<lparr> app_isFilteringOrSorting := False \<rparr>
         else st1\<lparr> app_isLoading := False \<rparr>)"

text \<open>
  One search in isolation: between its call and the settlement of its request no other
  handler runs, so the settlement meets the state the call left.
\<close>

definition handleSearch ::
  "(number \<Rightarrow> string) \<Rightarrow> (string \<Rightarrow> SearchOptions \<Rightarrow> thrown + SearchResponse) \<Rightarrow> string
     \<Rightarrow> SearchFilters option \<Rightarrow> SortBy option \<Rightarrow> bool \<Rightarrow> AppState \<Rightarrow> AppState" where
  "handleSearch render post query newFilters newSortBy isFilterOperation st =
     (case handleSearch_start query newFilters newSortBy isFilterOperation st of
        (st', searchOptions) \<Rightarrow>
          handleSearch_settle newFilters newSortBy isFilterOperation
            (aiSearch render post searchOptions) st')"

text \<open>
  Two overlapping searches: the second is called while the request of the first is
  pending, and the two requests settle in either order. A call is the four arguments of
  \<open>handleSearch\<close>; each request has its own outcome.
\<close>

type_synonym search_call = "string \<times> SearchFilters option \<times> SortBy option \<times> bool"

datatype arrival = FirstIssuedSettlesFirst | SecondIssuedSettlesFirst

definition start_call :: "search_call \<Rightarrow> AppState \<Rightarrow> AppState" where
  "start_call c st = (case c of (q, nf, ns, op) \<Rightarrow> fst (handleSearch_start q nf ns op st))"

definition settle_call :: "search_call \<Rightarrow> thrown + Product list \<Rightarrow> AppState \<Rightarrow> AppState" where
  "settle_call c outcome st = (case c of (q, nf, ns, op) \<Rightarrow> handleSearch_settle nf ns op outcome st)"

definition overlapping_searches ::
  "arrival \<Rightarrow> search_call \<Rightarrow> thrown + Product list \<Rightarrow> search_call \<Rightarrow> thrown + Product list
     \<Rightarrow> AppState \<Rightarrow> AppState" where
  "overlapping_searches order c1 outcome1 c2 outcome2 st =
     (let pending = start_call c2 (start_call c1 st)
      in (case order of
            FirstIssuedSettlesFirst \<Rightarrow> settle_call c2 outcome2 (settle_call c1 outcome1 pending)
          | SecondIssuedSettlesFirst \<Rightarrow> settle_call c1 outcome1 (settle_call c2 outcome2 pending)))"


section \<open>Concrete inputs\<close>

text \<open>Values at which the properties below are evaluated.\<close>

definition empty_message_error :: AxiosError where
  "empty_message_error =
     \<lparr> ae_code = Some ''ERR_BAD_REQUEST'',
       ae_response = Some \<lparr> er_status = 400, er_data = Some \<lparr> eb_message = Some [] \<rparr> \<rparr> \<rparr>"

definition not_found_error :: AxiosError where
  "not_found_error =
     \<lparr> ae_code = Some ''ECONNABORTED'',
       ae_response =
         Some \<lparr> er_status = 404, er_data = Some \<lparr> eb_message = Some ''No such product'' \<rparr> \<rparr> \<rparr>"

definition validation_error :: AxiosError where
  "validation_error =
     \<lparr> ae_code = Some ''ERR_BAD_REQUEST'',
       ae_response =
         Some \<lparr> er_status = 400, er_data = Some \<lparr> eb_message = Some ''Query is required'' \<rparr> \<rparr> \<rparr>"

definition server_error :: thrown where
  "server_error =
     IsAxiosError \<lparr> ae_code = Some ''ERR_BAD_RESPONSE'',
                    ae_response = Some \<lparr> er_status = 500, er_data = None \<rparr> \<rparr>"

definition sample_backend :: BackendProduct where
  "sample_backend =
     \<lparr> bp_id = Finite 42, bp_name = ''Trail shoe'', bp_description = ''Light running shoe'',
       bp_price = Finite 99.99, bp_category = ''shoes'', bp_imageUrl = ''/img/42.png'',
       bp_attributes = [(''brand'', JStr ''Acme'')], bp_createdAt = ''2024-01-01'',
       bp_updatedAt = ''2024-02-01'', bp_ai_explanation = Some ''Matches your query'',
       bp_ai_relevance_score = Some (Finite 0.9) \<rparr>"

definition sample_product :: Product where
  "sample_product =
     \<lparr> p_id = ''42'', p_name = ''Trail shoe'', p_price = Finite 99.99,
       p_description = ''Light running shoe'', p_image = ''/img/42.png'',
       p_currency = Some ''USD'', p_aiExplanation = Some ''Matches your query'' \<rparr>"

definition other_product :: Product where
  "other_product =
     \<lparr> p_id = ''7'', p_name = ''Phone'', p_price = Finite 300, p_description = ''A phone'',
       p_image = ''/img/7.png'', p_currency = Some ''USD'', p_aiExplanation = None \<rparr>"

text \<open>A rendering of the numbers that are not safe integers, given at one fraction.\<close>

definition sample_render :: "number \<Rightarrow> string" where
  "sample_render x = (if x = Finite 99.5 then ''99.5'' else [])"



definition sample_search_response :: SearchResponse where
  "sample_search_response =
     \<lparr> sr_success = True, sr_query = ''shoe'', sr_results = [sample_backend], sr_filters = [],
       sr_sortBy = ''relevance'',
       sr_pagination = \<lparr> pg_page = Finite 1, pg_limit = Finite 50, pg_total = Finite 1,
                          pg_totalPages = Finite 1, pg_hasNextPage = False,
                          pg_hasPrevPage = False \<rparr>,
       sr_total_results = Finite 1, sr_execution_time_ms = Finite 12 \<rparr>"

definition answering_post :: "string \<Rightarrow> SearchOptions \<Rightarrow> thrown + SearchResponse" where
  "answering_post url options = Inr sample_search_response"

definition failing_post :: "string \<Rightarrow> SearchOptions \<Rightarrow> thrown + SearchResponse" where
  "failing_post url options = Inl server_error"


definition no_filters :: SearchFilters where
  "no_filters =
     \<lparr> f_category = None, f_brand = None, f_minPrice = None, f_maxPrice = None,
       f_attributes = None \<rparr>"

definition zero_minPrice :: SearchFilters where
  "zero_minPrice =
     \<lparr> f_category = None, f_brand = None, f_minPrice = Some (Finite 0), f_maxPrice = None,
       f_attributes = None \<rparr>"

definition shoe_filters :: SearchFilters where
  "shoe_filters =
     \<lparr> f_category = Some ''shoes'', f_brand = None, f_minPrice = Some (Finite 50),
       f_maxPrice = Some (Finite 99.5), f_attributes = None \<rparr>"

text \<open>
  The application showing the results of an earlier search for \<open>shoe\<close>, filtered and
  sorted by price.
\<close>

definition searching :: AppState where
  "searching =
     app_initial\<lparr> app_products := [other_product], app_isLoading := False,
                  app_searchQuery := ''shoe'', app_filters := shoe_filters,
                  app_sortBy := Some price_asc \<rparr>"

text \<open>
  The two searches one click on "clear all filters" issues while a search is active:
  \<open>handleFiltersChange({})\<close> and then \<open>handleSortChange('relevance')\<close>, both filter or
  sort operations.
\<close>

definition first_call :: search_call where
  "first_call = (''shoe'', Some no_filters, Some price_asc, True)"

definition second_call :: search_call where
  "second_call = (''shoe'', Some shoe_filters, Some relevance, True)"


section \<open>Properties of the value model\<close>









text \<open>On the safe integers \<open>toString\<close> does not consult the platform's rendering.\<close>

lemma is_safe_integer_of_int: "is_safe_integer (of_int i) \<longleftrightarrow> \<bar>i\<bar> < 2 ^ 53"
proof -
  have "\<bar>of_int i :: real\<bar> = of_int \<bar>i\<bar>"
    by simp
  moreover have "(of_int \<bar>i\<bar> :: real) < 2 ^ 53 \<longleftrightarrow> \<bar>i\<bar> < 2 ^ 53"
    by (rule of_int_less_numeral_power_cancel_iff)
  ultimately show ?thesis
    unfolding is_safe_integer_def by simp
qed

lemma number_toString_safe:
  "\<bar>i\<bar> < 2 ^ 53 \<Longrightarrow> number_toString render (Finite (of_int i)) = int_decimal i"
  by (simp add: number_toString_def is_safe_integer_of_int)

lemma truthy_number_iff: "truthy_number x \<longleftrightarrow> x \<noteq> Finite 0 \<and> x \<noteq> NaN"
  by (cases x) (simp_all add: truthy_number_def)

lemma all_dropWhile: "(\<forall>x\<in>set (dropWhile P xs). P x) \<longleftrightarrow> (\<forall>x\<in>set xs. P x)"
  by (induction xs) auto

lemma trim_empty_iff: "trim s = [] \<longleftrightarrow> (\<forall>c\<in>set s. is_whitespace c)"
proof -
  have "trim s = [] \<longleftrightarrow> (\<forall>c\<in>set (dropWhile is_whitespace s). is_whitespace c)"
    by (simp add: trim_def)
  then show ?thesis by (simp add: all_dropWhile)
qed


section \<open>Properties of the reducer\<close>

lemma authReducer_consistent:
  "auth_consistent state \<Longrightarrow> auth_consistent (authReducer state action)"
  by (cases action) (simp_all add: auth_consistent_def)

lemma dispatch_all_consistent:
  "auth_consistent state \<Longrightarrow> auth_consistent (dispatch_all state actions)"
  unfolding dispatch_all_def
proof (induction actions arbitrary: state)
  case Nil
  then show ?case by simp
next
  case (Cons a actions)
  from Cons.prems have "auth_consistent (authReducer state a)"
    by (rule authReducer_consistent)
  then show ?case using Cons.IH by simp
qed

lemma initialState_consistent: "auth_consistent initialState"
  by (simp add: auth_consistent_def initialState_def)

text \<open>
  C3. Every state reachable from the initial state by a sequence of dispatched actions
  (the four declared ones or an unknown one) satisfies
  \<open>isAuthenticated = (user is not null)\<close>; \<open>SET_USER\<close> sets \<open>isAuthenticated\<close> to the
  non-nullness of its payload, \<open>LOGOUT\<close> sets \<open>user\<close> to null and \<open>isAuthenticated\<close> to
  false, and \<open>SET_LOADING\<close>, \<open>SET_ERROR\<close> and unknown actions leave both fields as they
  were.
\<close>

theorem C3_auth_invariant:
  "isAuthenticated (dispatch_all initialState actions)
     = (user (dispatch_all initialState actions) \<noteq> None)
   \<and> user (authReducer state (SET_USER payload)) = payload
   \<and> isAuthenticated (authReducer state (SET_USER payload)) = (payload \<noteq> None)
   \<and> user (authReducer state LOGOUT) = None
   \<and> isAuthenticated (authReducer state LOGOUT) = False
   \<and> user (authReducer state (SET_LOADING b)) = user state
   \<and> isAuthenticated (authReducer state (SET_LOADING b)) = isAuthenticated state
   \<and> user (authReducer state (SET_ERROR e)) = user state
   \<and> isAuthenticated (authReducer state (SET_ERROR e)) = isAuthenticated state
   \<and> user (authReducer state (OTHER t)) = user state
   \<and> isAuthenticated (authReducer state (OTHER t)) = isAuthenticated state"
proof -
  have "auth_consistent (dispatch_all initialState actions)"
    using initialState_consistent by (rule dispatch_all_consistent)
  then have "isAuthenticated (dispatch_all initialState actions)
     = (user (dispatch_all initialState actions) \<noteq> None)"
    by (simp add: auth_consistent_def)
  then show ?thesis by simp
qed

text \<open>
  C8. \<open>SET_ERROR\<close> changes only \<open>error\<close> (to its payload) and \<open>isLoading\<close> (to false);
  \<open>LOGOUT\<close> yields \<open>user\<close> null, \<open>isAuthenticated\<close> false, \<open>isLoading\<close> false and
  \<open>error\<close> null whatever the state was.
\<close>

theorem C8_set_error_logout_frame:
  "authReducer state (SET_ERROR e)
     = \<lparr> user = user state, isAuthenticated = isAuthenticated state, isLoading = False,
         error = e \<rparr>
   \<and> authReducer state LOGOUT
     = \<lparr> user = None, isAuthenticated = False, isLoading = False, error = None \<rparr>"
  by (cases state) simp

section \<open>Properties of the HTTP client wrapper\<close>

subsection \<open>Error messages\<close>

text \<open>
  C1, as amended. \<open>getErrorMessage\<close> returns one string, chosen in this order: status 404,
  status 500, code \<open>ECONNABORTED\<close>, code \<open>ERR_NETWORK\<close>, a non-empty \<open>message\<close> of the
  response body, and the generic text in every remaining case: no message, an empty
  message, or a value that is not an Axios error. The status checks come before the code
  checks and before the backend's message.
\<close>

theorem C1_getErrorMessage_priority:
  "(response_status e = Some 404 \<longrightarrow>
      getErrorMessage (IsAxiosError e) = ''The requested resource was not found.'')
   \<and> (response_status e = Some 500 \<longrightarrow>
      getErrorMessage (IsAxiosError e) = ''Server error occurred. Please try again later.'')
   \<and> (response_status e \<noteq> Some 404 \<and> response_status e \<noteq> Some 500
        \<and> ae_code e = Some ''ECONNABORTED'' \<longrightarrow>
      getErrorMessage (IsAxiosError e) = ''Request timed out. Please check your connection.'')
   \<and> (response_status e \<noteq> Some 404 \<and> response_status e \<noteq> Some 500
        \<and> ae_code e = Some ''ERR_NETWORK'' \<longrightarrow>
      getErrorMessage (IsAxiosError e)
        = ''Network error. Please check your internet connection.'')
   \<and> (response_status e \<noteq> Some 404 \<and> response_status e \<noteq> Some 500
        \<and> ae_code e \<noteq> Some ''ECONNABORTED'' \<and> ae_code e \<noteq> Some ''ERR_NETWORK''
        \<and> response_message e = Some m \<and> m \<noteq> [] \<longrightarrow>
      getErrorMessage (IsAxiosError e) = m)
   \<and> (response_status e \<noteq> Some 404 \<and> response_status e \<noteq> Some 500
        \<and> ae_code e \<noteq> Some ''ECONNABORTED'' \<and> ae_code e \<noteq> Some ''ERR_NETWORK''
        \<and> (response_message e = None \<or> response_message e = Some []) \<longrightarrow>
      getErrorMessage (IsAxiosError e) = ''An unexpected error occurred. Please try again.'')
   \<and> getErrorMessage (NotAxios v) = ''An unexpected error occurred. Please try again.''"
  by (auto simp: truthy_string_def)

text \<open>
  A 404 with a timeout code and a backend message gives the 404 text; a 400 with a backend
  message gives that message.
\<close>

theorem C1_getErrorMessage_priority_witness:
  "getErrorMessage (IsAxiosError not_found_error) = ''The requested resource was not found.''
   \<and> getErrorMessage (IsAxiosError validation_error) = ''Query is required''"
  using C1_getErrorMessage_priority [of not_found_error]
    C1_getErrorMessage_priority [of validation_error "''Query is required''"]
  by (simp add: not_found_error_def validation_error_def response_status_def
      response_message_def)

text \<open>
  C1 as stated fails where the body carries an empty message: the status is 400, the code
  is neither of the two, the \<open>message\<close> field is there, and the result is the generic text,
  not the message.
\<close>

theorem C1_empty_message_counterexample:
  "response_status empty_message_error = Some 400
   \<and> ae_code empty_message_error = Some ''ERR_BAD_REQUEST''
   \<and> response_message empty_message_error = Some []
   \<and> getErrorMessage (IsAxiosError empty_message_error)
       = ''An unexpected error occurred. Please try again.''
   \<and> getErrorMessage (IsAxiosError empty_message_error) \<noteq> []"
  by (simp add: empty_message_error_def response_message_def response_status_def
      truthy_string_def)

subsection \<open>Product transformation\<close>



subsection \<open>The query of getAllProducts\<close>

lemma join_amp_nonempty: "xs \<noteq> [] \<Longrightarrow> \<forall>x\<in>set xs. x \<noteq> [] \<Longrightarrow> join_amp xs \<noteq> []"
  by (induction xs rule: join_amp.induct) auto

lemma params_toString_empty_iff: "params_toString enc params = [] \<longleftrightarrow> params = []"
proof
  assume e: "params_toString enc params = []"
  show "params = []"
  proof (rule ccontr)
    assume "params \<noteq> []"
    then have "join_amp (map (\<lambda>(k, v). enc k @ ''='' @ enc v) params) \<noteq> []"
      by (intro join_amp_nonempty) auto
    with e show False by (simp add: params_toString_def)
  qed
next
  assume "params = []"
  then show "params_toString enc params = []"
    by (simp add: params_toString_def)
qed

lemma set_append_string:
  "set (append_string key v params)
     = set params \<union> (case v of Some s \<Rightarrow> if s \<noteq> [] then {(key, s)} else {} | None \<Rightarrow> {})"
  by (simp add: append_string_def truthy_string_def split: option.splits)

lemma set_append_number:
  "set (append_number render key v params)
     = set params
       \<union> (case v of
            Some n \<Rightarrow> if truthy_number n then {(key, number_toString render n)} else {}
          | None \<Rightarrow> {})"
  by (simp add: append_number_def split: option.splits)

lemma set_append_sortBy:
  "set (append_sortBy v params)
     = set params
       \<union> (case v of Some s \<Rightarrow> if s \<noteq> relevance then {(''sortBy'', sortBy_string s)} else {}
           | None \<Rightarrow> {})"
  by (simp add: append_sortBy_def split: option.splits)

text \<open>
  C5, as amended. \<open>getAllProducts\<close> issues its GET to a URL whose query holds a
  \<open>category\<close> or \<open>brand\<close> parameter exactly when that filter field is a non-empty string,
  a \<open>minPrice\<close> or \<open>maxPrice\<close> parameter exactly when that field is a truthy number
  (neither zero nor \<open>NaN\<close>), its value the number rendered by \<open>toString\<close> (the decimal
  digits for a safe integer), and a \<open>sortBy\<close> parameter exactly when a sort key is given
  and is not \<open>relevance\<close>; the URL is the bare \<open>/products\<close> when no parameter is appended,
  and \<open>/products?\<close> followed by the serialised parameters otherwise.
\<close>

theorem C5_getAllProducts_query:
  "((k, v) \<in> set (getAllProducts_params render filters sortBy) \<longleftrightarrow>
      (k = ''category'' \<and> Option.bind filters f_category = Some v \<and> v \<noteq> [])
    \<or> (k = ''brand'' \<and> Option.bind filters f_brand = Some v \<and> v \<noteq> [])
    \<or> (k = ''minPrice'' \<and> (\<exists>n. Option.bind filters f_minPrice = Some n \<and> n \<noteq> Finite 0
                                  \<and> n \<noteq> NaN \<and> v = number_toString render n))
    \<or> (k = ''maxPrice'' \<and> (\<exists>n. Option.bind filters f_maxPrice = Some n \<and> n \<noteq> Finite 0
                                  \<and> n \<noteq> NaN \<and> v = number_toString render n))
    \<or> (k = ''sortBy'' \<and> (\<exists>s. sortBy = Some s \<and> s \<noteq> relevance \<and> v = sortBy_string s)))
   \<and> (\<bar>i\<bar> < 2 ^ 53 \<longrightarrow> number_toString render (Finite (of_int i)) = int_decimal i)
   \<and> (getAllProducts_params render filters sortBy = [] \<longrightarrow>
        getAllProducts_url render enc filters sortBy = ''/products'')
   \<and> (getAllProducts_params render filters sortBy \<noteq> [] \<longrightarrow>
        getAllProducts_url render enc filters sortBy
          = ''/products?'' @ params_toString enc (getAllProducts_params render filters sortBy))
   \<and> getAllProducts render enc get filters sortBy
       = await (get (getAllProducts_url render enc filters sortBy))
           (\<lambda>response. map (transformProduct render) (br_data response))"
proof -
  have 1: "((k, v) \<in> set (getAllProducts_params render filters sortBy) \<longleftrightarrow>
      (k = ''category'' \<and> Option.bind filters f_category = Some v \<and> v \<noteq> [])
    \<or> (k = ''brand'' \<and> Option.bind filters f_brand = Some v \<and> v \<noteq> [])
    \<or> (k = ''minPrice'' \<and> (\<exists>n. Option.bind filters f_minPrice = Some n \<and> n \<noteq> Finite 0
                                  \<and> n \<noteq> NaN \<and> v = number_toString render n))
    \<or> (k = ''maxPrice'' \<and> (\<exists>n. Option.bind filters f_maxPrice = Some n \<and> n \<noteq> Finite 0
                                  \<and> n \<noteq> NaN \<and> v = number_toString render n))
    \<or> (k = ''sortBy'' \<and> (\<exists>s. sortBy = Some s \<and> s \<noteq> relevance \<and> v = sortBy_string s)))"
    unfolding getAllProducts_params_def set_append_string set_append_number set_append_sortBy
      truthy_number_iff
    by (auto split: option.splits if_splits)
  have 2: "getAllProducts_params render filters sortBy = [] \<longrightarrow>
        getAllProducts_url render enc filters sortBy = ''/products''"
    by (simp add: getAllProducts_url_def params_toString_def truthy_string_def)
  have 3: "getAllProducts_params render filters sortBy \<noteq> [] \<longrightarrow>
        getAllProducts_url render enc filters sortBy
          = ''/products?'' @ params_toString enc (getAllProducts_params render filters sortBy)"
    by (simp add: getAllProducts_url_def Let_def truthy_string_def params_toString_empty_iff)
  have 4: "\<bar>i\<bar> < 2 ^ 53 \<longrightarrow> number_toString render (Finite (of_int i)) = int_decimal i"
    by (simp add: number_toString_safe)
  show ?thesis
    using 1 2 3 4 by (simp add: getAllProducts_def)
qed

text \<open>
  A category, a whole minimum price, a fractional maximum price and a sort key give four
  parameters; no filters and the sort key \<open>relevance\<close> give the bare URL.
\<close>

theorem C5_getAllProducts_query_witness:
  "getAllProducts_params sample_render (Some shoe_filters) (Some price_asc)
     = [(''category'', ''shoes''), (''minPrice'', ''50''), (''maxPrice'', ''99.5''),
        (''sortBy'', ''price_asc'')]
   \<and> getAllProducts_url sample_render id (Some shoe_filters) (Some price_asc)
     = ''/products?category=shoes&minPrice=50&maxPrice=99.5&sortBy=price_asc''
   \<and> getAllProducts_url sample_render id None (Some relevance) = ''/products''"
proof -
  have d: "int_decimal 50 = ''50''"
    by code_simp
  note t = C5_getAllProducts_query [of _ _ sample_render "Some shoe_filters" "Some price_asc"
      50 id]
  have p: "getAllProducts_params sample_render (Some shoe_filters) (Some price_asc)
     = [(''category'', ''shoes''), (''minPrice'', ''50''), (''maxPrice'', ''99.5''),
        (''sortBy'', ''price_asc'')]"
    by (simp add: shoe_filters_def getAllProducts_params_def append_string_def
        append_number_def append_sortBy_def truthy_number_def truthy_string_def d
        number_toString_def is_safe_integer_def sample_render_def)
  have q: "getAllProducts_params sample_render None (Some relevance) = []"
    by (simp add: getAllProducts_params_def append_string_def append_number_def
        append_sortBy_def)
  from t C5_getAllProducts_query [of _ _ sample_render None "Some relevance" _ id]
  show ?thesis
    by (simp add: p q d params_toString_def)
qed

text \<open>
  C5 as stated fails for a filter whose \<open>minPrice\<close> is present and zero: no parameter is
  appended and the URL is the bare \<open>/products\<close>.
\<close>

theorem C5_zero_minPrice_counterexample:
  "f_minPrice zero_minPrice = Some (Finite 0)
   \<and> getAllProducts_params sample_render (Some zero_minPrice) None = []
   \<and> getAllProducts_url sample_render id (Some zero_minPrice) None = ''/products''"
  by (simp add: zero_minPrice_def getAllProducts_params_def getAllProducts_url_def
      append_string_def append_number_def append_sortBy_def truthy_number_def
      params_toString_def truthy_string_def)

subsection \<open>Health check\<close>

text \<open>
  C10. \<open>healthCheck\<close> never rejects: whatever the outcome of \<open>GET /health\<close>, it returns a
  boolean, true when the request is fulfilled and false when it is rejected.
\<close>

theorem C10_healthCheck_total:
  "healthCheck get = Inr (\<not> isl (get ''/health''))
   \<and> healthCheck (\<lambda>url. Inr r) = Inr True
   \<and> healthCheck (\<lambda>url. Inl e) = Inr False"
  by (simp add: healthCheck_def split: sum.splits)


section \<open>Properties of the search bar\<close>

text \<open>
  C4. The submit button is disabled exactly when the trimmed input is empty, that is when
  the input is empty or all white space. Submitting calls \<open>onSearch\<close> once, with the
  trimmed input, when that is non-empty, and does not call it otherwise.
\<close>

theorem C4_submit_trimmed:
  "submit_disabled query = (trim query = [])
   \<and> (trim query = []) = (\<forall>c\<in>set query. is_whitespace c)
   \<and> (trim query \<noteq> [] \<longrightarrow>
        handleSubmit onSearch query parent = onSearch (trim query) parent
        \<and> handleSubmit record_call query calls = calls @ [trim query])
   \<and> ((\<forall>c\<in>set query. is_whitespace c) \<longrightarrow>
        handleSubmit onSearch query parent = parent
        \<and> handleSubmit record_call query calls = calls)"
  using trim_empty_iff [of query]
  by (simp add: submit_disabled_def handleSubmit_def truthy_string_def record_call_def)

theorem C4_submit_trimmed_witness:
  "submit_disabled ''  running shoes '' = False
   \<and> handleSubmit record_call ''  running shoes '' [] = [''running shoes'']
   \<and> submit_disabled ''   '' = True
   \<and> handleSubmit record_call ''   '' [] = []"
  using C4_submit_trimmed [of "''  running shoes ''" record_call "[]" "[]"]
    C4_submit_trimmed [of "''   ''" record_call "[]" "[]"]
  by (simp add: trim_def is_whitespace_def record_call_def)


section \<open>Properties of the loading spinner\<close>

text \<open>
  C9. The displayed message is \<open>Loading...\<close> when the argument is undefined, none when it
  is the empty string, and the argument itself when it is a non-empty string.
\<close>

theorem C9_displayMessage_cases:
  "displayMessage None = Some ''Loading...''
   \<and> displayMessage (Some []) = None
   \<and> (m \<noteq> [] \<longrightarrow> displayMessage (Some m) = Some m)
   \<and> rendered_message message = displayMessage message"
  by (auto simp: displayMessage_def rendered_message_def truthy_string_def
      split: option.splits)

theorem C9_displayMessage_cases_witness:
  "displayMessage (Some ''We are fetching your results...'')
     = Some ''We are fetching your results...''"
  using C9_displayMessage_cases [of "''We are fetching your results...''"] by simp


section \<open>Properties of the application component\<close>

text \<open>
  C6, as amended. For a search during which no other handler changes the state between
  its call and the settlement of its request: when the \<open>aiSearch\<close> call fails, the
  products are those before the search, the error is the text \<open>getErrorMessage\<close> gives for
  the failure, \<open>searchQuery\<close> is the submitted query, and the loading flag that was raised
  (\<open>isFilteringOrSorting\<close> for a filter or sort operation, \<open>isLoading\<close> otherwise) is
  lowered again, the other flag being as before; when it succeeds, the products are the
  returned list and the error is null.

  For every search, step by step and from any state: the call clears the error, sets
  \<open>searchQuery\<close> to the query, raises its flag and leaves the products; the settlement of
  a failure leaves the products and \<open>searchQuery\<close> as it finds them and sets the error to
  the text for the failure; the settlement of a success replaces the products by the
  returned list and leaves the error as it finds it; either settlement lowers the flag of
  the search and leaves the other flag.
\<close>

theorem C6_handleSearch_outcomes:
  "(aiSearch render post
        (snd (handleSearch_start query newFilters newSortBy isFilterOperation st)) = Inl err \<longrightarrow>
      app_products (handleSearch render post query newFilters newSortBy isFilterOperation st)
        = app_products st
    \<and> app_error (handleSearch render post query newFilters newSortBy isFilterOperation st)
        = Some (getErrorMessage err)
    \<and> app_searchQuery (handleSearch render post query newFilters newSortBy isFilterOperation st)
        = query
    \<and> (if isFilterOperation
        then app_isFilteringOrSorting
               (handleSearch render post query newFilters newSortBy isFilterOperation st) = False
           \<and> app_isLoading
               (handleSearch render post query newFilters newSortBy isFilterOperation st)
               = app_isLoading st
        else app_isLoading
               (handleSearch render post query newFilters newSortBy isFilterOperation st) = False
           \<and> app_isFilteringOrSorting
               (handleSearch render post query newFilters newSortBy isFilterOperation st)
               = app_isFilteringOrSorting st))
   \<and> (aiSearch render post
        (snd (handleSearch_start query newFilters newSortBy isFilterOperation st))
        = Inr found \<longrightarrow>
      app_products (handleSearch render post query newFilters newSortBy isFilterOperation st)
        = found
    \<and> app_error (handleSearch render post query newFilters newSortBy isFilterOperation st)
        = None)
   \<and> app_error (fst (handleSearch_start query newFilters newSortBy isFilterOperation st)) = None
   \<and> app_searchQuery (fst (handleSearch_start query newFilters newSortBy isFilterOperation st))
       = query
   \<and> app_products (fst (handleSearch_start query newFilters newSortBy isFilterOperation st))
       = app_products st
   \<and> (if isFilterOperation
       then app_isFilteringOrSorting
              (fst (handleSearch_start query newFilters newSortBy isFilterOperation st)) = True
          \<and> app_isLoading
              (fst (handleSearch_start query newFilters newSortBy isFilterOperation st))
              = app_isLoading st
       else app_isLoading
              (fst (handleSearch_start query newFilters newSortBy isFilterOperation st)) = True
          \<and> app_isFilteringOrSorting
              (fst (handleSearch_start query newFilters newSortBy isFilterOperation st))
              = app_isFilteringOrSorting st)
   \<and> app_products (handleSearch_settle newFilters newSortBy isFilterOperation (Inl err) st)
       = app_products st
   \<and> app_error (handleSearch_settle newFilters newSortBy isFilterOperation (Inl err) st)
       = Some (getErrorMessage err)
   \<and> app_searchQuery (handleSearch_settle newFilters newSortBy isFilterOperation (Inl err) st)
       = app_searchQuery st
   \<and> app_products (handleSearch_settle newFilters newSortBy isFilterOperation (Inr found) st)
       = found
   \<and> app_error (handleSearch_settle newFilters newSortBy isFilterOperation (Inr found) st)
       = app_error st
   \<and> (if isFilterOperation
       then app_isFilteringOrSorting
              (handleSearch_settle newFilters newSortBy isFilterOperation outcome st) = False
          \<and> app_isLoading
              (handleSearch_settle newFilters newSortBy isFilterOperation outcome st)
              = app_isLoading st
       else app_isLoading
              (handleSearch_settle newFilters newSortBy isFilterOperation outcome st) = False
          \<and> app_isFilteringOrSorting
              (handleSearch_settle newFilters newSortBy isFilterOperation outcome st)
              = app_isFilteringOrSorting st)"
proof -
  have isolated_failure:
    "aiSearch render post
        (snd (handleSearch_start query newFilters newSortBy isFilterOperation st)) = Inl err \<longrightarrow>
      app_products (handleSearch render post query newFilters newSortBy isFilterOperation st)
        = app_products st
    \<and> app_error (handleSearch render post query newFilters newSortBy isFilterOperation st)
        = Some (getErrorMessage err)
    \<and> app_searchQuery (handleSearch render post query newFilters newSortBy isFilterOperation st)
        = query
    \<and> (if isFilterOperation
        then app_isFilteringOrSorting
               (handleSearch render post query newFilters newSortBy isFilterOperation st) = False
           \<and> app_isLoading
               (handleSearch render post query newFilters newSortBy isFilterOperation st)
               = app_isLoading st
        else app_isLoading
               (handleSearch render post query newFilters newSortBy isFilterOperation st) = False
           \<and> app_isFilteringOrSorting
               (handleSearch render post query newFilters newSortBy isFilterOperation st)
               = app_isFilteringOrSorting st)"
    by (simp add: handleSearch_def handleSearch_start_def handleSearch_settle_def Let_def
        split: option.splits)
  have isolated_success:
    "aiSearch render post
        (snd (handleSearch_start query newFilters newSortBy isFilterOperation st))
        = Inr found \<longrightarrow>
      app_products (handleSearch render post query newFilters newSortBy isFilterOperation st)
        = found
    \<and> app_error (handleSearch render post query newFilters newSortBy isFilterOperation st)
        = None"
    by (simp add: handleSearch_def handleSearch_start_def handleSearch_settle_def Let_def
        split: option.splits)
  have start:
    "app_error (fst (handleSearch_start query newFilters newSortBy isFilterOperation st)) = None
   \<and> app_searchQuery (fst (handleSearch_start query newFilters newSortBy isFilterOperation st))
       = query
   \<and> app_products (fst (handleSearch_start query newFilters newSortBy isFilterOperation st))
       = app_products st
   \<and> (if isFilterOperation
       then app_isFilteringOrSorting
              (fst (handleSearch_start query newFilters newSortBy isFilterOperation st)) = True
          \<and> app_isLoading
              (fst (handleSearch_start query newFilters newSortBy isFilterOperation st))
              = app_isLoading st
       else app_isLoading
              (fst (handleSearch_start query newFilters newSortBy isFilterOperation st)) = True
          \<and> app_isFilteringOrSorting
              (fst (handleSearch_start query newFilters newSortBy isFilterOperation st))
              = app_isFilteringOrSorting st)"
    by (simp add: handleSearch_start_def Let_def)
  have settle_failure:
    "app_products (handleSearch_settle newFilters newSortBy isFilterOperation (Inl err) st)
       = app_products st
   \<and> app_error (handleSearch_settle newFilters newSortBy isFilterOperation (Inl err) st)
       = Some (getErrorMessage err)
   \<and> app_searchQuery (handleSearch_settle newFilters newSortBy isFilterOperation (Inl err) st)
       = app_searchQuery st"
    by (simp add: handleSearch_settle_def Let_def)
  have settle_success:
    "app_products (handleSearch_settle newFilters newSortBy isFilterOperation (Inr found) st)
       = found
   \<and> app_error (handleSearch_settle newFilters newSortBy isFilterOperation (Inr found) st)
       = app_error st"
    by (simp add: handleSearch_settle_def Let_def split: option.splits)
  have settle_flags:
    "if isFilterOperation
       then app_isFilteringOrSorting
              (handleSearch_settle newFilters newSortBy isFilterOperation outcome st) = False
          \<and> app_isLoading
              (handleSearch_settle newFilters newSortBy isFilterOperation outcome st)
              = app_isLoading st
       else app_isLoading
              (handleSearch_settle newFilters newSortBy isFilterOperation outcome st) = False
          \<and> app_isFilteringOrSorting
              (handleSearch_settle newFilters newSortBy isFilterOperation outcome st)
              = app_isFilteringOrSorting st"
    by (cases outcome)
       (simp_all add: handleSearch_settle_def Let_def split: option.splits)
  from isolated_failure isolated_success start settle_failure settle_success settle_flags
  show ?thesis
    by (intro conjI) blast+
qed

text \<open>
  An isolated plain search for \<open>shoe\<close>, once rejected with a status 500 and once answered
  with one product.
\<close>

theorem C6_handleSearch_outcomes_witness:
  "app_products (handleSearch sample_render failing_post ''shoe'' None None False searching)
     = [other_product]
   \<and> app_error (handleSearch sample_render failing_post ''shoe'' None None False searching)
     = Some ''Server error occurred. Please try again later.''
   \<and> app_searchQuery (handleSearch sample_render failing_post ''shoe'' None None False searching)
     = ''shoe''
   \<and> app_isLoading (handleSearch sample_render failing_post ''shoe'' None None False searching)
     = False
   \<and> app_products (handleSearch sample_render answering_post ''shoe'' None None False searching)
     = [sample_product]
   \<and> app_error (handleSearch sample_render answering_post ''shoe'' None None False searching)
     = None"
proof -
  have n: "int_decimal 42 = ''42''"
    by code_simp
  have i: "number_toString sample_render (Finite 42) = int_decimal 42"
    using number_toString_safe [of 42 sample_render] by simp
  have f: "aiSearch sample_render failing_post
      (snd (handleSearch_start ''shoe'' None None False searching)) = Inl server_error"
    by (simp add: aiSearch_def await_def failing_post_def)
  have a: "aiSearch sample_render answering_post
      (snd (handleSearch_start ''shoe'' None None False searching)) = Inr [sample_product]"
    by (simp add: aiSearch_def await_def answering_post_def sample_search_response_def
        sample_backend_def sample_product_def transformProduct_def i n)
  have m: "getErrorMessage server_error = ''Server error occurred. Please try again later.''"
    by (simp add: server_error_def response_status_def)
  have s: "app_products searching = [other_product]"
    by (simp add: searching_def)
  from C6_handleSearch_outcomes [of sample_render failing_post "''shoe''" None None False
      searching server_error]
    C6_handleSearch_outcomes [of sample_render answering_post "''shoe''" None None False
      searching _ "[sample_product]"]
  show ?thesis
    using f a m s by simp
qed

text \<open>
  C6 as stated fails for overlapping searches. A search is active; clearing the filters
  issues two searches, the first is rejected and the second is answered with one
  product. When the rejection arrives first, the successful second search ends with its
  products shown and the error of the first, not null. When the rejection arrives last,
  the failed first search ends with the products of the second, not with those shown
  before it.
\<close>

theorem C6_overlapping_searches_counterexample:
  "app_products (overlapping_searches FirstIssuedSettlesFirst first_call (Inl server_error)
      second_call (Inr [sample_product]) searching) = [sample_product]
   \<and> app_error (overlapping_searches FirstIssuedSettlesFirst first_call (Inl server_error)
      second_call (Inr [sample_product]) searching)
     = Some ''Server error occurred. Please try again later.''
   \<and> app_products searching = [other_product]
   \<and> app_products (overlapping_searches SecondIssuedSettlesFirst first_call (Inl server_error)
      second_call (Inr [sample_product]) searching) = [sample_product]
   \<and> sample_product \<noteq> other_product"
  by (simp add: overlapping_searches_def start_call_def settle_call_def first_call_def
      second_call_def handleSearch_start_def handleSearch_settle_def Let_def searching_def
      server_error_def response_status_def sample_product_def other_product_def)

text \<open>
  C7, as amended. Of two overlapping searches that both succeed, the products shown in the
  end are those of the request whose response arrives last: of the request issued last
  when the responses arrive in the order of issue, of the request issued first when they
  arrive in the other order. The earlier request is not cancelled: when it is rejected
  after the later one has settled, its error is the one shown.
\<close>

theorem C7_last_response_wins:
  "app_products (overlapping_searches order c1 (Inr found1) c2 (Inr found2) st)
     = (case order of FirstIssuedSettlesFirst \<Rightarrow> found2 | SecondIssuedSettlesFirst \<Rightarrow> found1)
   \<and> app_error (overlapping_searches SecondIssuedSettlesFirst c1 (Inl err) c2 outcome2 st)
     = Some (getErrorMessage err)"
  by (cases c1; cases c2; cases order; cases outcome2)
     (simp_all add: overlapping_searches_def start_call_def settle_call_def
        handleSearch_start_def handleSearch_settle_def Let_def split: option.splits)


text \<open>
  Two overlapping filter and sort operations, answered in the order of issue: the products
  of the second are shown.
\<close>

theorem C7_last_response_wins_witness:
  "app_products (overlapping_searches FirstIssuedSettlesFirst first_call (Inr [sample_product])
      second_call (Inr [other_product]) searching) = [other_product]"
  using C7_last_response_wins [of FirstIssuedSettlesFirst first_call "[sample_product]"
      second_call "[other_product]" searching]
  by simp

text \<open>
  C7 as stated fails when the response of the request issued first arrives last: the
  products shown are those of the first request, not of the request issued last.
\<close>

theorem C7_first_request_wins_counterexample:
  "app_products (overlapping_searches SecondIssuedSettlesFirst first_call (Inr [sample_product])
      second_call (Inr [other_product]) searching) = [sample_product]
   \<and> [sample_product] \<noteq> [other_product]"
  by (simp add: overlapping_searches_def start_call_def settle_call_def first_call_def
      second_call_def handleSearch_start_def handleSearch_settle_def Let_def
      sample_product_def other_product_def)

end
